theory Spec2Isabelle
  imports Main "HOL-Library.Word"
begin

section \<open>Errors\<close>

text \<open>
  \<^verbatim>\<open>new SdkError(msg, code)\<close> of \<^verbatim>\<open>src/modules/tx.ts\<close>. The class and the table
  \<^verbatim>\<open>CODES\<close> live in \<^verbatim>\<open>../errors\<close>; the members of \<^verbatim>\<open>CODES\<close> that \<^verbatim>\<open>tx.ts\<close> names are
  constructors here. \<open>NoCode\<close> is an \<^verbatim>\<open>SdkError\<close> built with the message only (the
  constructor's default code applies), \<open>ChainCode n\<close> is a numeric code copied from a
  node's response.
\<close>

datatype codes = NoCode | Panic | KeyNotFound | InvalidPassword | InvalidType | Internal
  | ChainCode nat

datatype sdkError = SdkError string codes

fun error_code :: "sdkError \<Rightarrow> codes" where
  "error_code (SdkError m c) = c"

section \<open>Message creation\<close>

text \<open>
  The members of the enum \<^verbatim>\<open>types.TxType\<close> that \<^verbatim>\<open>createMsg\<close> switches on, in the order
  of the \<^verbatim>\<open>case\<close> labels. The enum's string values are declared outside \<^verbatim>\<open>tx.ts\<close>, so
  the table from members to strings is a parameter of \<open>createMsg\<close>.
\<close>

datatype txType =
    T_MsgSend | T_MsgMultiSend
  | T_MsgDelegate | T_MsgUndelegate | T_MsgBeginRedelegate
  | T_MsgWithdrawDelegatorReward | T_MsgSetWithdrawAddress
  | T_MsgWithdrawValidatorCommission | T_MsgFundCommunityPool
  | T_MsgIssueToken | T_MsgEditToken | T_MsgMintToken | T_MsgTransferTokenOwner
  | T_MsgAddLiquidity | T_MsgRemoveLiquidity | T_MsgSwapOrder
  | T_MsgIssueDenom | T_MsgMintNFT | T_MsgEditNFT | T_MsgTransferNFT | T_MsgBurnNFT

text \<open>
  The message classes \<^verbatim>\<open>createMsg\<close> instantiates. \<open>New cls v\<close> is the object
  \<^verbatim>\<open>new types.cls(v)\<close>; \<open>EmptyObject\<close> is the initial value \<^verbatim>\<open>{}\<close> of the local
  variable \<^verbatim>\<open>msg\<close>.
\<close>

datatype msgClass =
    MsgSend | MsgMultiSend
  | MsgDelegate | MsgUndelegate | MsgRedelegate
  | MsgWithdrawDelegatorReward | MsgSetWithdrawAddress
  | MsgWithdrawValidatorCommission | MsgFundCommunityPool
  | MsgIssueToken | MsgEditToken | MsgMintToken | MsgTransferTokenOwner
  | MsgIssueDenom | MsgMintNFT | MsgEditNFT | MsgTransferNFT | MsgBurnNFT

datatype 'v msg = New msgClass 'v | EmptyObject

record 'v txMsg =
  msg_type :: string
  msg_value :: 'v

text \<open>
  \<^verbatim>\<open>createMsg\<close> (tx.ts, lines 314-412). A \<^verbatim>\<open>switch\<close> compares with \<^verbatim>\<open>===\<close> and takes
  the first label that matches; the three coinswap labels have an empty body, so
  \<^verbatim>\<open>msg\<close> keeps its initial value there.
\<close>

definition createMsg :: "(txType \<Rightarrow> string) \<Rightarrow> 'v txMsg \<Rightarrow> sdkError + 'v msg" where
  "createMsg TxType txMsg =
    (if msg_type txMsg = TxType T_MsgSend then Inr (New MsgSend (msg_value txMsg))
     else if msg_type txMsg = TxType T_MsgMultiSend then Inr (New MsgMultiSend (msg_value txMsg))
     else if msg_type txMsg = TxType T_MsgDelegate then Inr (New MsgDelegate (msg_value txMsg))
     else if msg_type txMsg = TxType T_MsgUndelegate then Inr (New MsgUndelegate (msg_value txMsg))
     else if msg_type txMsg = TxType T_MsgBeginRedelegate
       then Inr (New MsgRedelegate (msg_value txMsg))
     else if msg_type txMsg = TxType T_MsgWithdrawDelegatorReward
       then Inr (New MsgWithdrawDelegatorReward (msg_value txMsg))
     else if msg_type txMsg = TxType T_MsgSetWithdrawAddress
       then Inr (New MsgSetWithdrawAddress (msg_value txMsg))
     else if msg_type txMsg = TxType T_MsgWithdrawValidatorCommission
       then Inr (New MsgWithdrawValidatorCommission (msg_value txMsg))
     else if msg_type txMsg = TxType T_MsgFundCommunityPool
       then Inr (New MsgFundCommunityPool (msg_value txMsg))
     else if msg_type txMsg = TxType T_MsgIssueToken then Inr (New MsgIssueToken (msg_value txMsg))
     else if msg_type txMsg = TxType T_MsgEditToken then Inr (New MsgEditToken (msg_value txMsg))
     else if msg_type txMsg = TxType T_MsgMintToken then Inr (New MsgMintToken (msg_value txMsg))
     else if msg_type txMsg = TxType T_MsgTransferTokenOwner
       then Inr (New MsgTransferTokenOwner (msg_value txMsg))
     else if msg_type txMsg = TxType T_MsgAddLiquidity then Inr EmptyObject
     else if msg_type txMsg = TxType T_MsgRemoveLiquidity then Inr EmptyObject
     else if msg_type txMsg = TxType T_MsgSwapOrder then Inr EmptyObject
     else if msg_type txMsg = TxType T_MsgIssueDenom then Inr (New MsgIssueDenom (msg_value txMsg))
     else if msg_type txMsg = TxType T_MsgMintNFT then Inr (New MsgMintNFT (msg_value txMsg))
     else if msg_type txMsg = TxType T_MsgEditNFT then Inr (New MsgEditNFT (msg_value txMsg))
     else if msg_type txMsg = TxType T_MsgTransferNFT then Inr (New MsgTransferNFT (msg_value txMsg))
     else if msg_type txMsg = TxType T_MsgBurnNFT then Inr (New MsgBurnNFT (msg_value txMsg))
     else Inl (SdkError ''not exist tx type'' InvalidType))"

text \<open>
  A table for \<^verbatim>\<open>types.TxType\<close> in which every member's string is the member's own
  name, as in the tag \<^verbatim>\<open>"MsgSend"\<close> of a value transfer.
\<close>

fun TxType_names :: "txType \<Rightarrow> string" where
  "TxType_names T_MsgSend = ''MsgSend''"
| "TxType_names T_MsgMultiSend = ''MsgMultiSend''"
| "TxType_names T_MsgDelegate = ''MsgDelegate''"
| "TxType_names T_MsgUndelegate = ''MsgUndelegate''"
| "TxType_names T_MsgBeginRedelegate = ''MsgBeginRedelegate''"
| "TxType_names T_MsgWithdrawDelegatorReward = ''MsgWithdrawDelegatorReward''"
| "TxType_names T_MsgSetWithdrawAddress = ''MsgSetWithdrawAddress''"
| "TxType_names T_MsgWithdrawValidatorCommission = ''MsgWithdrawValidatorCommission''"
| "TxType_names T_MsgFundCommunityPool = ''MsgFundCommunityPool''"
| "TxType_names T_MsgIssueToken = ''MsgIssueToken''"
| "TxType_names T_MsgEditToken = ''MsgEditToken''"
| "TxType_names T_MsgMintToken = ''MsgMintToken''"
| "TxType_names T_MsgTransferTokenOwner = ''MsgTransferTokenOwner''"
| "TxType_names T_MsgAddLiquidity = ''MsgAddLiquidity''"
| "TxType_names T_MsgRemoveLiquidity = ''MsgRemoveLiquidity''"
| "TxType_names T_MsgSwapOrder = ''MsgSwapOrder''"
| "TxType_names T_MsgIssueDenom = ''MsgIssueDenom''"
| "TxType_names T_MsgMintNFT = ''MsgMintNFT''"
| "TxType_names T_MsgEditNFT = ''MsgEditNFT''"
| "TxType_names T_MsgTransferNFT = ''MsgTransferNFT''"
| "TxType_names T_MsgBurnNFT = ''MsgBurnNFT''"

section \<open>JavaScript values\<close>

text \<open>
  The values \<^verbatim>\<open>sign\<close> tests for truthiness. A field typed \<^verbatim>\<open>string | undefined\<close> is a
  \<open>string option\<close> (\<open>None\<close> is \<^verbatim>\<open>undefined\<close>); it is falsy when it is \<^verbatim>\<open>undefined\<close> or
  the empty string.
\<close>

definition str_truthy :: "string option \<Rightarrow> bool" where
  "str_truthy x = (case x of None \<Rightarrow> False | Some s \<Rightarrow> s \<noteq> [])"

text \<open>\<^verbatim>\<open>x ?? d\<close> on a string: only \<^verbatim>\<open>undefined\<close> and \<^verbatim>\<open>null\<close> give way to \<open>d\<close>.\<close>

definition nullish :: "string option \<Rightarrow> string \<Rightarrow> string" where
  "nullish x d = (case x of None \<Rightarrow> d | Some s \<Rightarrow> s)"

text \<open>\<^verbatim>\<open>x || d\<close> on a string: every falsy \<open>x\<close> gives way to \<open>d\<close>.\<close>

definition or_str :: "string option \<Rightarrow> string \<Rightarrow> string" where
  "or_str x d = (case x of None \<Rightarrow> d | Some s \<Rightarrow> if s \<noteq> [] then s else d)"

text \<open>\<^verbatim>\<open>x || undefined\<close> on a string.\<close>

definition or_undefined :: "string \<Rightarrow> string option" where
  "or_undefined s = (if s \<noteq> [] then Some s else None)"

text \<open>\<^verbatim>\<open>is.empty\<close> of is_js on a string: \<^verbatim>\<open>value === ''\<close>.\<close>

definition is_empty :: "string \<Rightarrow> bool" where
  "is_empty s = (s = [])"

text \<open>
  The account number and the sequence of a resolved account are JavaScript values whose
  type is declared outside the sources (a number, a decimal string, an object, or
  \<^verbatim>\<open>undefined\<close>). \<^verbatim>\<open>sign\<close> makes two observations of such a value \<open>v\<close>: whether it
  is truthy (\<^verbatim>\<open>if (v)\<close>) and its conversion \<^verbatim>\<open>String(v)\<close>. A value is given by these two
  observations: the number 0 is falsy with the conversion \<^verbatim>\<open>'0'\<close>, the number 9 is
  truthy with the conversion \<^verbatim>\<open>'9'\<close>, \<^verbatim>\<open>undefined\<close> is falsy with the conversion
  \<^verbatim>\<open>'undefined'\<close>.
\<close>

record jsval =
  js_truthy :: bool
  js_String :: string

section \<open>Data model\<close>

type_synonym bytes = "8 word list"

text \<open>\<^verbatim>\<open>types.Key\<close>: the fields of a key record that \<^verbatim>\<open>tx.ts\<close> reads.\<close>

record key =
  address :: string
  privateKey :: string

text \<open>
  \<^verbatim>\<open>types.PubkeyType\<close>; \<^verbatim>\<open>tx.ts\<close> names the member \<^verbatim>\<open>secp256k1\<close> only.
  \<^verbatim>\<open>types.BroadcastMode\<close> has the members Async, Sync and Commit.
\<close>

datatype pubkeyType = secp256k1 | OtherPubkeyType string

datatype broadcastMode = Async | Sync | Commit

text \<open>
  \<^verbatim>\<open>types.BaseTx\<close>: the fields \<^verbatim>\<open>sign\<close> and \<^verbatim>\<open>buildAndSend\<close> read. \<open>tx_from\<close> is the
  field \<^verbatim>\<open>from\<close>. Gas, fee and memo are read by the transaction builder only.
\<close>

record baseTx =
  tx_from :: string
  password :: string
  account_number :: "string option"
  sequence :: "string option"
  pubkeyType :: "pubkeyType option"
  mode :: "broadcastMode option"

record coin =
  denom :: string
  amount :: string

text \<open>\<^verbatim>\<open>types.BaseAccount\<close>: \<open>acc_accountNumber\<close> and \<open>acc_sequence\<close> are the fields
  \<^verbatim>\<open>accountNumber\<close> and \<^verbatim>\<open>sequence\<close> that \<^verbatim>\<open>sign\<close> reads.\<close>

record baseAccount =
  acc_accountNumber :: jsval
  acc_sequence :: jsval
  coins :: "coin list"

text \<open>
  Modelled from the spec: \<^verbatim>\<open>types.ProtoTx\<close>, whose class is not in \<^verbatim>\<open>tx.ts\<close>. A
  transaction is an ordered sequence of messages, a fee and a memo; it carries at most
  one public key, attached together with a sequence, and at most one signature.
\<close>

record protoTx =
  tx_msgs :: "string msg list"
  tx_fee :: string
  tx_memo :: string
  tx_pubKey :: "(string \<times> string option) option"
  tx_signature :: "string option"

text \<open>Modelled from the spec: \<^verbatim>\<open>ProtoTx.hasPubKey\<close>, whether a public key is attached.\<close>

definition hasPubKey :: "protoTx \<Rightarrow> bool" where
  "hasPubKey tx = (tx_pubKey tx \<noteq> None)"

text \<open>Modelled from the spec: \<^verbatim>\<open>ProtoTx.setPubKey\<close>, which attaches the public key
  together with the sequence it is given.\<close>

definition setPubKey :: "protoTx \<Rightarrow> string \<Rightarrow> string option \<Rightarrow> protoTx" where
  "setPubKey tx pubKey sequence' = tx\<lparr>tx_pubKey := Some (pubKey, sequence')\<rparr>"

text \<open>Modelled from the spec: \<^verbatim>\<open>ProtoTx.addSignature\<close>, which attaches the signature.\<close>

definition addSignature :: "protoTx \<Rightarrow> string \<Rightarrow> protoTx" where
  "addSignature tx signature = tx\<lparr>tx_signature := Some signature\<rparr>"

text \<open>The responses of the node that \<^verbatim>\<open>tx.ts\<close> reads. A response code is unsigned.\<close>

type_synonym tag = "string \<times> string"

record resultTx =
  code :: nat
  log :: string
  gas_wanted :: "string option"
  gas_used :: "string option"
  info :: "string option"
  tags :: "tag list option"

record resultBroadcastTx =
  hash :: string
  height :: "nat option"
  check_tx :: "resultTx option"
  deliver_tx :: "resultTx option"

record resultBroadcastTxAsync =
  async_code :: "nat option"
  async_log :: string
  async_hash :: string

record txResult =
  res_hash :: string
  res_height :: "nat option"
  res_gas_wanted :: "string option"
  res_gas_used :: "string option"
  res_info :: "string option"
  res_tags :: "tag list option"

text \<open>
  Modelled from the spec: the members of \<^verbatim>\<open>types.RpcMethods\<close> that \<^verbatim>\<open>tx.ts\<close> names, with
  the method names of the transport port.
\<close>

definition BroadcastTxAsync :: string where
  "BroadcastTxAsync = ''broadcast_tx_async''"

definition BroadcastTxSync :: string where
  "BroadcastTxSync = ''broadcast_tx_sync''"

definition BroadcastTxCommit :: string where
  "BroadcastTxCommit = ''broadcast_tx_commit''"

section \<open>Collaborators and effects\<close>

text \<open>
  What \<^verbatim>\<open>this.client\<close>, \<^verbatim>\<open>Crypto\<close> and \<^verbatim>\<open>Utils\<close> give to \<^verbatim>\<open>tx.ts\<close>; none of it is defined
  there, so all of it is a parameter.
  \<^item> \<open>keyDAO_decrypt\<close> is \<open>None\<close> when the key store has no \<^verbatim>\<open>decrypt\<close> method; the
    method returns the private key, or an empty or null result.
  \<^item> \<open>abciQuery_account\<close> and \<open>abciQuery_balances\<close> are \<^verbatim>\<open>rpcClient.abciQuery\<close> at
    the paths \<^verbatim>\<open>custom/auth/account\<close> and \<^verbatim>\<open>custom/bank/all_balances\<close>;
    \<open>request_commit\<close> and \<open>request_tx\<close> are \<^verbatim>\<open>rpcClient.request\<close> at its two response
    types. \<open>Inl\<close> is a rejected promise.
  \<^item> \<open>getPublicKeyFromPrivateKey\<close> and \<open>generateSignature\<close> are the functions of
    \<^verbatim>\<open>Crypto\<close>; \<open>Inl\<close> is an exception they throw.
  \<^item> \<open>signDocBytes tx accountNumber chainId\<close> is
    \<^verbatim>\<open>tx.getSignDoc(accountNumber, chainId).serializeBinary()\<close>, \<open>getData\<close> is
    \<^verbatim>\<open>ProtoTx.getData\<close>, \<open>bytesToBase64\<close> and \<open>decodeTags\<close> are the functions of \<^verbatim>\<open>Utils\<close>.
\<close>

record client =
  chainId :: string
  keyDAO_read :: "string \<Rightarrow> key option"
  keyDAO_decrypt :: "(string \<Rightarrow> string \<Rightarrow> string option) option"
  abciQuery_account :: "string \<Rightarrow> sdkError + baseAccount"
  abciQuery_balances :: "string \<Rightarrow> sdkError + coin list"
  request_commit :: "string \<Rightarrow> sdkError + resultBroadcastTx"
  request_tx :: "string \<Rightarrow> string \<Rightarrow> sdkError + resultBroadcastTxAsync"
  getPublicKeyFromPrivateKey :: "string option \<Rightarrow> pubkeyType option \<Rightarrow> sdkError + string"
  generateSignature :: "bytes \<Rightarrow> string option \<Rightarrow> pubkeyType option \<Rightarrow> sdkError + string"
  signDocBytes :: "protoTx \<Rightarrow> string option \<Rightarrow> string \<Rightarrow> bytes"
  getData :: "protoTx \<Rightarrow> bytes"
  bytesToBase64 :: "bytes \<Rightarrow> string"
  decodeTags :: "tag list \<Rightarrow> tag list"

text \<open>
  The calls a function makes to its collaborators, in the order it makes them:
  the key store (\<open>KeyRead name\<close>, \<open>KeyDecrypt privateKey password\<close>), the network
  (\<open>AbciQuery path address\<close>, \<open>RpcRequest method tx\<close>), \<^verbatim>\<open>Crypto\<close>
  (\<open>GetPublicKey\<close>, \<open>GenerateSignature\<close>) and \<^verbatim>\<open>console.error\<close>.
\<close>

datatype event =
    KeyRead string
  | KeyDecrypt string string
  | AbciQuery string string
  | RpcRequest string string
  | GetPublicKey "string option" "pubkeyType option"
  | GenerateSignature bytes "string option" "pubkeyType option"
  | ConsoleError resultTx

fun is_network :: "event \<Rightarrow> bool" where
  "is_network (AbciQuery p a) = True"
| "is_network (RpcRequest m t) = True"
| "is_network e = False"

text \<open>
  A run yields the calls it made and either the exception it threw (for an \<^verbatim>\<open>async\<close>
  function and a promise: the rejection) or its value. \<open>bind\<close> is sequencing: an
  \<^verbatim>\<open>await\<close>, a \<^verbatim>\<open>.then\<close>, or the next statement.
\<close>

type_synonym 'a run = "event list \<times> (sdkError + 'a)"

definition ret :: "'a \<Rightarrow> 'a run" where
  "ret x = ([], Inr x)"

definition throw :: "sdkError \<Rightarrow> 'a run" where
  "throw e = ([], Inl e)"

definition call :: "event \<Rightarrow> sdkError + 'a \<Rightarrow> 'a run" where
  "call ev r = ([ev], r)"

definition bind :: "'a run \<Rightarrow> ('a \<Rightarrow> 'b run) \<Rightarrow> 'b run" where
  "bind m f =
    (case m of
       (evs, Inl e) \<Rightarrow> (evs, Inl e)
     | (evs, Inr x) \<Rightarrow> (case f x of (evs', r) \<Rightarrow> (evs @ evs', r)))"

section \<open>Account resolution\<close>

text \<open>
  \<^verbatim>\<open>queryAccount\<close> (lines 41-63 of its module): both queries are issued before either
  is awaited (\<^verbatim>\<open>Promise.all\<close>), and the balances are written into the account's
  \<^verbatim>\<open>coins\<close>. When a query fails the promise is rejected with that query's error; when
  both fail, the model reports the first of the array.
\<close>

definition queryAccount :: "client \<Rightarrow> string \<Rightarrow> baseAccount run" where
  "queryAccount c addr =
    bind (call (AbciQuery ''custom/auth/account'' addr) (Inr (abciQuery_account c addr)))
      (\<lambda>res0.
    bind (call (AbciQuery ''custom/bank/all_balances'' addr) (Inr (abciQuery_balances c addr)))
      (\<lambda>res1.
    case res0 of
      Inl e \<Rightarrow> throw e
    | Inr acc \<Rightarrow>
        (case res1 of
           Inl e \<Rightarrow> throw e
         | Inr bal \<Rightarrow> ret (acc\<lparr>coins := bal\<rparr>))))"

section \<open>Signing\<close>

text \<open>
  Lines 133-140 of \<^verbatim>\<open>sign\<close>: the account number and the sequence the signature is
  made with. The result is the pair of the local variables \<^verbatim>\<open>accountNumber\<close> and
  \<^verbatim>\<open>sequence\<close> after line 140. The call \<^verbatim>\<open>this.client.auth.queryAccount\<close> is the call
  of the account resolver; the resolver in the sources is \<open>queryAccount\<close> above.
\<close>

definition sign_nonce :: "client \<Rightarrow> key \<Rightarrow> baseTx \<Rightarrow> (string \<times> string) run" where
  "sign_nonce c keyObj b =
    (let accountNumber = nullish (account_number b) ''0'';
         sequence' = or_str (sequence b) ''0''
     in if \<not> str_truthy (account_number b) \<or> \<not> str_truthy (sequence b)
        then bind (queryAccount c (address keyObj)) (\<lambda>account.
          ret (if js_truthy (acc_accountNumber account)
                 then or_str (Some (js_String (acc_accountNumber account))) ''0''
                 else accountNumber,
               if js_truthy (acc_sequence account)
                 then or_str (Some (js_String (acc_sequence account))) ''0''
                 else sequence'))
        else ret (accountNumber, sequence'))"

text \<open>
  Lines 142-152 of \<^verbatim>\<open>sign\<close>, with the key record found and the local variables
  \<^verbatim>\<open>accountNumber\<close> and \<^verbatim>\<open>sequence\<close> set: decryption, the public key, the signature.
  The transaction is mutated in place and returned; the model returns the updated
  transaction.
\<close>

definition sign_attach ::
  "client \<Rightarrow> (string \<Rightarrow> string \<Rightarrow> string option) \<Rightarrow> key \<Rightarrow> protoTx \<Rightarrow> baseTx
    \<Rightarrow> string \<times> string \<Rightarrow> protoTx run" where
  "sign_attach c decrypt keyObj stdTx b = (\<lambda>(accountNumber, sequence').
    bind (call (KeyDecrypt (privateKey keyObj) (password b))
           (Inr (decrypt (privateKey keyObj) (password b)))) (\<lambda>privKey.
    if \<not> str_truthy privKey
      then throw (SdkError ''decrypto the private key error'' InvalidPassword)
    else
    bind (if \<not> hasPubKey stdTx
            then bind (call (GetPublicKey privKey (pubkeyType b))
                        (getPublicKeyFromPrivateKey c privKey (pubkeyType b))) (\<lambda>pubKey.
                 ret (setPubKey stdTx pubKey (or_undefined sequence')))
            else ret stdTx) (\<lambda>stdTx1.
    bind (call (GenerateSignature
                  (signDocBytes c stdTx1 (or_undefined accountNumber) (chainId c))
                  privKey (pubkeyType b))
           (generateSignature c
              (signDocBytes c stdTx1 (or_undefined accountNumber) (chainId c))
              privKey (pubkeyType b))) (\<lambda>signature.
    ret (addSignature stdTx1 signature)))))"

text \<open>\<^verbatim>\<open>sign\<close> (tx.ts, lines 114-153).\<close>

definition sign :: "client \<Rightarrow> protoTx \<Rightarrow> baseTx \<Rightarrow> protoTx run" where
  "sign c stdTx b =
    (if is_empty (tx_from b)
       then throw (SdkError ''baseTx.from of the key can not be empty'' NoCode)
     else if is_empty (password b)
       then throw (SdkError ''baseTx.password of the key can not be empty'' NoCode)
     else case keyDAO_decrypt c of
       None \<Rightarrow> throw (SdkError ''Decrypt method of KeyDAO not implemented'' Panic)
     | Some decrypt \<Rightarrow>
    bind (call (KeyRead (tx_from b)) (Inr (keyDAO_read c (tx_from b)))) (\<lambda>keyObj'.
    case keyObj' of
      None \<Rightarrow> throw (SdkError (''Key with name '' @ [CHR 0x27] @ tx_from b @ [CHR 0x27]
                 @ '' not found'') KeyNotFound)
    | Some keyObj \<Rightarrow>
    bind (sign_nonce c keyObj b) (sign_attach c decrypt keyObj stdTx b)))"

text \<open>\<^verbatim>\<open>sign_signDoc\<close> (tx.ts, lines 165-189). The parameter \<^verbatim>\<open>type\<close> defaults to
  \<^verbatim>\<open>secp256k1\<close> when it is \<^verbatim>\<open>undefined\<close>.\<close>

definition sign_signDoc ::
  "client \<Rightarrow> bytes \<Rightarrow> string \<Rightarrow> string \<Rightarrow> pubkeyType option \<Rightarrow> string run" where
  "sign_signDoc c signDoc name password' type' =
    (let type = (case type' of None \<Rightarrow> secp256k1 | Some t \<Rightarrow> t)
     in if is_empty name
       then throw (SdkError ''Name of the key can not be empty'' NoCode)
     else if is_empty password'
       then throw (SdkError ''Password of the key can not be empty'' NoCode)
     else case keyDAO_decrypt c of
       None \<Rightarrow> throw (SdkError ''Decrypt method of KeyDAO not implemented'' NoCode)
     | Some decrypt \<Rightarrow>
    bind (call (KeyRead name) (Inr (keyDAO_read c name))) (\<lambda>keyObj'.
    case keyObj' of
      None \<Rightarrow> throw (SdkError (''Key with name '' @ [CHR 0x27] @ name @ [CHR 0x27]
                 @ '' not found'') KeyNotFound)
    | Some keyObj \<Rightarrow>
    bind (call (KeyDecrypt (privateKey keyObj) password')
           (Inr (decrypt (privateKey keyObj) password'))) (\<lambda>privKey.
    call (GenerateSignature signDoc privKey (Some type))
      (generateSignature c signDoc privKey (Some type)))))"

section \<open>Broadcasting\<close>

text \<open>\<^verbatim>\<open>newTxResult\<close> (tx.ts, lines 294-307).\<close>

definition newTxResult :: "string \<Rightarrow> nat option \<Rightarrow> resultTx option \<Rightarrow> txResult" where
  "newTxResult hash' height' deliverTx =
    \<lparr> res_hash = hash',
      res_height = height',
      res_gas_wanted = Option.bind deliverTx gas_wanted,
      res_gas_used = Option.bind deliverTx gas_used,
      res_info = Option.bind deliverTx info,
      res_tags = Option.bind deliverTx tags \<rparr>"

text \<open>\<^verbatim>\<open>broadcastTxCommit\<close> (tx.ts, lines 218-248).\<close>

definition broadcastTxCommit :: "client \<Rightarrow> bytes \<Rightarrow> txResult run" where
  "broadcastTxCommit c txBytes =
    bind (call (RpcRequest BroadcastTxCommit (bytesToBase64 c txBytes))
           (request_commit c (bytesToBase64 c txBytes))) (\<lambda>response.
    bind (case check_tx response of
            None \<Rightarrow> ret ()
          | Some ct \<Rightarrow>
              if 0 < code ct
                then bind (call (ConsoleError ct) (Inr ()))
                       (\<lambda>u. throw (SdkError (log ct) (ChainCode (code ct))))
                else ret ()) (\<lambda>u.
    bind (case deliver_tx response of
            None \<Rightarrow> ret ()
          | Some dt \<Rightarrow>
              if 0 < code dt
                then bind (call (ConsoleError dt) (Inr ()))
                       (\<lambda>u. throw (SdkError (log dt) (ChainCode (code dt))))
                else ret ()) (\<lambda>u.
    let deliver_tx' =
          (case deliver_tx response of
             None \<Rightarrow> None
           | Some dt \<Rightarrow>
               (case tags dt of
                  None \<Rightarrow> Some dt
                | Some ts \<Rightarrow> Some (dt\<lparr>tags := Some (decodeTags c ts)\<rparr>)))
    in ret \<lparr> res_hash = hash response,
             res_height = height response,
             res_gas_wanted = Option.bind deliver_tx' gas_wanted,
             res_gas_used = Option.bind deliver_tx' gas_used,
             res_info = Option.bind deliver_tx' info,
             res_tags = Option.bind deliver_tx' tags \<rparr>)))"

text \<open>\<^verbatim>\<open>broadcastTx\<close> (tx.ts, lines 256-281).\<close>

definition broadcastTx :: "client \<Rightarrow> bytes \<Rightarrow> string \<Rightarrow> resultBroadcastTxAsync run" where
  "broadcastTx c txBytes method =
    (if method \<notin> set [BroadcastTxSync, BroadcastTxAsync]
       then throw (SdkError (''Unsupported broadcast method: '' @ method) Internal)
     else
    bind (call (RpcRequest method (bytesToBase64 c txBytes))
           (request_tx c method (bytesToBase64 c txBytes))) (\<lambda>response.
    case async_code response of
      None \<Rightarrow> ret response
    | Some k \<Rightarrow>
        if 0 < k
          then throw (SdkError (async_log response) (ChainCode k))
          else ret response))"

text \<open>\<^verbatim>\<open>broadcastTxAsync\<close> and \<^verbatim>\<open>broadcastTxSync\<close> (tx.ts, lines 196-211).\<close>

definition broadcastTxAsync :: "client \<Rightarrow> bytes \<Rightarrow> resultBroadcastTxAsync run" where
  "broadcastTxAsync c txBytes = broadcastTx c txBytes BroadcastTxAsync"

definition broadcastTxSync :: "client \<Rightarrow> bytes \<Rightarrow> resultBroadcastTxAsync run" where
  "broadcastTxSync c txBytes = broadcastTx c txBytes BroadcastTxSync"

text \<open>\<^verbatim>\<open>broadcast\<close> (tx.ts, lines 86-104). \<open>None\<close> is an omitted \<^verbatim>\<open>mode\<close>.\<close>

definition broadcast :: "client \<Rightarrow> protoTx \<Rightarrow> broadcastMode option \<Rightarrow> txResult run" where
  "broadcast c signedTx mode' =
    (let txBytes = getData c signedTx
     in case mode' of
          Some Commit \<Rightarrow> broadcastTxCommit c txBytes
        | Some Sync \<Rightarrow>
            bind (broadcastTxSync c txBytes)
              (\<lambda>response. ret (newTxResult (async_hash response) None None))
        | _ \<Rightarrow>
            bind (broadcastTxAsync c txBytes)
              (\<lambda>response. ret (newTxResult (async_hash response) None None)))"

section \<open>Building and sending\<close>

text \<open>\<^verbatim>\<open>msgs.map(msg => this.createMsg(msg))\<close>: the first message that \<^verbatim>\<open>createMsg\<close>
  rejects ends the loop with its exception.\<close>

fun createMsgs :: "(txType \<Rightarrow> string) \<Rightarrow> 'v txMsg list \<Rightarrow> sdkError + 'v msg list" where
  "createMsgs TxType [] = Inr []"
| "createMsgs TxType (m # ms) =
    (case createMsg TxType m of
       Inl e \<Rightarrow> Inl e
     | Inr x \<Rightarrow> (case createMsgs TxType ms of Inl e \<Rightarrow> Inl e | Inr xs \<Rightarrow> Inr (x # xs)))"

text \<open>\<^verbatim>\<open>buildTx\<close> (tx.ts, lines 29-38); \<open>newStdTx\<close> is \<^verbatim>\<open>client.auth.newStdTx\<close>, a parameter.\<close>

definition buildTx ::
  "(txType \<Rightarrow> string) \<Rightarrow> (string msg list \<Rightarrow> baseTx \<Rightarrow> protoTx) \<Rightarrow> string txMsg list \<Rightarrow> baseTx
    \<Rightarrow> sdkError + protoTx" where
  "buildTx TxType newStdTx msgs b =
    (case createMsgs TxType msgs of
       Inl e \<Rightarrow> Inl e
     | Inr msgList \<Rightarrow> Inr (newStdTx msgList b))"

text \<open>\<^verbatim>\<open>buildAndSend\<close> (tx.ts, lines 66-77).\<close>

definition buildAndSend ::
  "client \<Rightarrow> (txType \<Rightarrow> string) \<Rightarrow> (string msg list \<Rightarrow> baseTx \<Rightarrow> protoTx) \<Rightarrow> string txMsg list
    \<Rightarrow> baseTx \<Rightarrow> txResult run" where
  "buildAndSend c TxType newStdTx msgs b =
    (case buildTx TxType newStdTx msgs b of
       Inl e \<Rightarrow> throw e
     | Inr unsignedTx \<Rightarrow>
         bind (sign c unsignedTx b) (\<lambda>signedTx. broadcast c signedTx (mode b)))"

section \<open>A test fixture\<close>

text \<open>
  A client with one key, \<open>alice\<close>, whose password is \<open>pw\<close>; its node knows the account
  with the account number 9 and the sequence 0, both JavaScript numbers, and accepts
  every transaction.
\<close>

definition js_number_0 :: jsval where
  "js_number_0 = \<lparr> js_truthy = False, js_String = ''0'' \<rparr>"

definition js_number_9 :: jsval where
  "js_number_9 = \<lparr> js_truthy = True, js_String = ''9'' \<rparr>"

definition alice_key :: key where
  "alice_key = \<lparr> address = ''addr1'', privateKey = ''enc'' \<rparr>"

definition ok_tx :: resultTx where
  "ok_tx = \<lparr> code = 0, log = [], gas_wanted = Some ''200000'', gas_used = Some ''51234'',
             info = None, tags = Some [(''action'', ''send'')] \<rparr>"

definition failed_tx :: "nat \<Rightarrow> string \<Rightarrow> resultTx" where
  "failed_tx k l = \<lparr> code = k, log = l, gas_wanted = Some ''200000'', gas_used = Some ''7'',
                     info = None, tags = Some [] \<rparr>"

definition test_client :: client where
  "test_client =
    \<lparr> chainId = ''test-1'',
      keyDAO_read = (\<lambda>n. if n = ''alice'' then Some alice_key else None),
      keyDAO_decrypt = Some (\<lambda>k p. if k = ''enc'' \<and> p = ''pw'' then Some ''priv'' else None),
      abciQuery_account =
        (\<lambda>a. Inr \<lparr> acc_accountNumber = js_number_9, acc_sequence = js_number_0,
                    coins = [] \<rparr>),
      abciQuery_balances = (\<lambda>a. Inr [\<lparr> denom = ''stake'', amount = ''10'' \<rparr>]),
      request_commit =
        (\<lambda>t. Inr \<lparr> hash = ''AB12'', height = Some 7, check_tx = Some ok_tx,
                    deliver_tx = Some ok_tx \<rparr>),
      request_tx = (\<lambda>m t. Inr \<lparr> async_code = None, async_log = [], async_hash = ''AB12'' \<rparr>),
      getPublicKeyFromPrivateKey = (\<lambda>k t. Inr ''pub''),
      generateSignature = (\<lambda>d k t. Inr ''sig''),
      signDocBytes = (\<lambda>tx a ch. [1, 2, 3]),
      getData = (\<lambda>tx. [4, 5]),
      bytesToBase64 = (\<lambda>bs. ''BAU=''),
      decodeTags = (\<lambda>ts. ts) \<rparr>"

definition test_tx :: protoTx where
  "test_tx = \<lparr> tx_msgs = [New MsgSend ''addr1 addr2 10stake''], tx_fee = ''4stake'',
                tx_memo = [], tx_pubKey = None, tx_signature = None \<rparr>"

definition test_baseTx :: baseTx where
  "test_baseTx = \<lparr> tx_from = ''alice'', password = ''pw'', account_number = None,
                    sequence = None, pubkeyType = None, mode = None \<rparr>"

section \<open>Sequencing and the steps of signing\<close>

lemmas js_defs = str_truthy_def nullish_def or_str_def or_undefined_def is_empty_def

lemmas fixture_defs = test_client_def test_tx_def test_baseTx_def alice_key_def ok_tx_def
  failed_tx_def js_number_0_def js_number_9_def

lemma bind_Inl: "bind (evs, Inl e) f = (evs, Inl e)"
  by (simp add: bind_def)

lemma bind_Inr: "bind (evs, Inr x) f = (evs @ fst (f x), snd (f x))"
  by (simp add: bind_def split: prod.splits)

lemma bind_ret: "bind (ret x) f = f x"
  by (simp add: bind_def ret_def split: prod.splits)

lemma bind_throw: "bind (throw e) f = throw e"
  by (simp add: bind_def throw_def)

lemma bind_call_Inr: "bind (call ev (Inr x)) f = (ev # fst (f x), snd (f x))"
  by (simp add: bind_def call_def split: prod.splits)

lemma bind_call_Inl: "bind (call ev (Inl e)) f = ([ev], Inl e)"
  by (simp add: bind_def call_def)

lemmas bind_simps = bind_Inl bind_Inr bind_ret bind_throw bind_call_Inr bind_call_Inl

lemma fst_bind:
  "fst (bind m f) = fst m @ (case snd m of Inl e \<Rightarrow> [] | Inr x \<Rightarrow> fst (f x))"
  by (cases m) (auto simp: bind_def split: sum.splits prod.splits)

lemma snd_bind:
  "snd (bind m f) = (case snd m of Inl e \<Rightarrow> Inl e | Inr x \<Rightarrow> snd (f x))"
  by (cases m) (auto simp: bind_def split: sum.splits prod.splits)

lemma queryAccount_events:
  "fst (queryAccount c addr) =
     [AbciQuery ''custom/auth/account'' addr, AbciQuery ''custom/bank/all_balances'' addr]"
  by (simp add: queryAccount_def bind_simps throw_def ret_def split: sum.splits)

lemma sign_nonce_events:
  "fst (sign_nonce c keyObj b) =
    (if \<not> str_truthy (account_number b) \<or> \<not> str_truthy (sequence b)
     then [AbciQuery ''custom/auth/account'' (address keyObj),
           AbciQuery ''custom/bank/all_balances'' (address keyObj)]
     else [])"
  by (simp add: sign_nonce_def Let_def fst_bind queryAccount_events ret_def split: sum.splits)

lemma sign_nonce_present:
  "str_truthy (account_number b) \<Longrightarrow> str_truthy (sequence b) \<Longrightarrow>
   sign_nonce c keyObj b = ([], Inr (the (account_number b), the (sequence b)))"
  by (auto simp: sign_nonce_def Let_def ret_def js_defs split: option.splits)

lemma sign_nonce_resolved:
  assumes "\<not> str_truthy (account_number b) \<or> \<not> str_truthy (sequence b)"
    and "snd (queryAccount c (address keyObj)) = Inr account"
  shows "snd (sign_nonce c keyObj b) =
    Inr (if js_truthy (acc_accountNumber account)
           then or_str (Some (js_String (acc_accountNumber account))) ''0''
         else nullish (account_number b) ''0'',
         if js_truthy (acc_sequence account)
           then or_str (Some (js_String (acc_sequence account))) ''0''
         else or_str (sequence b) ''0'')"
  using assms by (auto simp: sign_nonce_def Let_def snd_bind ret_def)

lemma sign_found:
  assumes "\<not> is_empty (tx_from b)" "\<not> is_empty (password b)"
    "keyDAO_decrypt c = Some decrypt" "keyDAO_read c (tx_from b) = Some keyObj"
  shows "sign c stdTx b =
    (KeyRead (tx_from b) # fst (bind (sign_nonce c keyObj b) (sign_attach c decrypt keyObj stdTx b)),
     snd (bind (sign_nonce c keyObj b) (sign_attach c decrypt keyObj stdTx b)))"
  using assms unfolding sign_def
  by (simp add: bind_call_Inr)

lemma sign_attach_bad_password:
  "\<not> str_truthy (decrypt (privateKey keyObj) (password b)) \<Longrightarrow>
   sign_attach c decrypt keyObj stdTx b n =
     ([KeyDecrypt (privateKey keyObj) (password b)],
      Inl (SdkError ''decrypto the private key error'' InvalidPassword))"
  by (cases n) (simp add: sign_attach_def bind_call_Inr throw_def)

lemma sign_attach_no_network: "filter is_network (fst (sign_attach c decrypt keyObj stdTx b n)) = []"
  by (cases n)
    (auto simp: sign_attach_def fst_bind snd_bind call_def ret_def throw_def split: sum.splits)

lemma tx_pubKey_same: "tx_pubKey tx = Some pk \<Longrightarrow> tx\<lparr>tx_pubKey := Some pk\<rparr> = tx"
  by (cases tx) simp

lemma sign_attach_result:
  assumes "sign_attach c decrypt keyObj stdTx b n = (evs, Inr tx')"
  shows "(\<exists>pk sg. tx' = stdTx\<lparr>tx_pubKey := Some pk, tx_signature := Some sg\<rparr>) \<and>
         (hasPubKey stdTx \<longrightarrow> tx_pubKey tx' = tx_pubKey stdTx \<and> (\<forall>k t. GetPublicKey k t \<notin> set evs))"
proof (cases n)
  case (Pair accountNumber sequence')
  show ?thesis
  proof (cases "hasPubKey stdTx")
    case True
    then obtain pk where pk: "tx_pubKey stdTx = Some pk"
      by (auto simp: hasPubKey_def)
    from True assms Pair obtain sg where
      r: "tx' = stdTx\<lparr>tx_signature := Some sg\<rparr>" and
      e: "evs = [KeyDecrypt (privateKey keyObj) (password b),
            GenerateSignature (signDocBytes c stdTx (or_undefined accountNumber) (chainId c))
              (decrypt (privateKey keyObj) (password b)) (pubkeyType b)]"
      by (auto simp: sign_attach_def bind_simps call_def ret_def throw_def addSignature_def
          bind_def split: if_splits sum.splits)
    from r pk have "tx' = stdTx\<lparr>tx_pubKey := Some pk, tx_signature := Some sg\<rparr>"
      by (simp add: tx_pubKey_same)
    moreover from r have "tx_pubKey tx' = tx_pubKey stdTx" by simp
    moreover from e have "\<forall>k t. GetPublicKey k t \<notin> set evs" by simp
    ultimately show ?thesis by blast
  next
    case False
    with assms Pair show ?thesis
      apply (simp add: sign_attach_def bind_call_Inr throw_def split: if_splits)
      apply (auto simp: bind_def call_def ret_def addSignature_def setPubKey_def split: sum.splits if_splits)
      done
  qed
qed

section \<open>Claims about signing\<close>

text \<open>
  C5. \<^verbatim>\<open>sign\<close> fails with a validation error (an \<^verbatim>\<open>SdkError\<close> built without a code)
  whenever \<^verbatim>\<open>baseTx.from\<close> or \<^verbatim>\<open>baseTx.password\<close> is empty, whatever the other inputs
  are, and it has made no call by then: no key-store lookup, no network query.
\<close>

theorem sign_empty_credentials:
  "is_empty (tx_from b) \<or> is_empty (password b) \<Longrightarrow>
   \<exists>m. sign c stdTx b = ([], Inl (SdkError m NoCode))"
  by (auto simp: sign_def throw_def)

theorem sign_empty_credentials_witness:
  "is_empty (password (test_baseTx\<lparr>password := []\<rparr>)) \<and>
   (\<exists>m. sign test_client test_tx (test_baseTx\<lparr>password := []\<rparr>) = ([], Inl (SdkError m NoCode)))"
proof -
  have p: "is_empty (password (test_baseTx\<lparr>password := []\<rparr>))"
    by (simp add: is_empty_def)
  then have "is_empty (tx_from (test_baseTx\<lparr>password := []\<rparr>))
      \<or> is_empty (password (test_baseTx\<lparr>password := []\<rparr>))" ..
  from sign_empty_credentials [OF this, of test_client test_tx] p show ?thesis
    by blast
qed

text \<open>
  C6, as the code has it. When \<^verbatim>\<open>baseTx.from\<close> and \<^verbatim>\<open>baseTx.password\<close> are not empty and
  the key store has a \<^verbatim>\<open>decrypt\<close> method, \<^verbatim>\<open>sign\<close> reads the key store, and when the read
  returns no record for \<^verbatim>\<open>baseTx.from\<close> it fails with the error of code \<^verbatim>\<open>KeyNotFound\<close>,
  whatever the transaction and the other fields of \<^verbatim>\<open>baseTx\<close> are; the read is its
  only call.
\<close>

theorem sign_key_not_found:
  assumes "\<not> is_empty (tx_from b)" and "\<not> is_empty (password b)"
    and "keyDAO_decrypt c = Some decrypt"
    and "keyDAO_read c (tx_from b) = None"
  shows "sign c stdTx b =
    ([KeyRead (tx_from b)],
     Inl (SdkError (''Key with name '' @ [CHR 0x27] @ tx_from b @ [CHR 0x27] @ '' not found'')
            KeyNotFound))"
  using assms
  by (simp add: sign_def throw_def bind_simps)

text \<open>
  The claim C6 as stated fails: the key store has no record for \<open>bob\<close>, and with an
  empty password \<^verbatim>\<open>sign\<close> fails with the validation error, which has no code, before
  it reads the key store.
\<close>

theorem sign_no_key_empty_password:
  "keyDAO_read test_client (tx_from (test_baseTx\<lparr>tx_from := ''bob'', password := []\<rparr>)) = None \<and>
   sign test_client test_tx (test_baseTx\<lparr>tx_from := ''bob'', password := []\<rparr>) =
     ([], Inl (SdkError ''baseTx.password of the key can not be empty'' NoCode))"
  by (simp add: sign_def throw_def is_empty_def fixture_defs)

theorem sign_key_not_found_witness:
  "sign test_client test_tx (test_baseTx\<lparr>tx_from := ''bob''\<rparr>) =
    ([KeyRead ''bob''],
     Inl (SdkError (''Key with name '' @ [CHR 0x27] @ ''bob'' @ [CHR 0x27] @ '' not found'')
            KeyNotFound))"
proof -
  let ?b = "test_baseTx\<lparr>tx_from := ''bob''\<rparr>"
  have g: "\<not> is_empty (tx_from ?b)" "\<not> is_empty (password ?b)"
    by (simp_all add: is_empty_def fixture_defs)
  have d: "keyDAO_decrypt test_client =
      Some (\<lambda>k p. if k = ''enc'' \<and> p = ''pw'' then Some ''priv'' else None)"
    by (simp add: test_client_def)
  have r: "keyDAO_read test_client (tx_from ?b) = None"
    by (simp add: fixture_defs)
  from sign_key_not_found [OF g d r] show ?thesis by simp
qed

text \<open>
  C7. On every run of \<^verbatim>\<open>sign\<close> that succeeds, the returned transaction is the input
  transaction with one public key and one signature attached and nothing else changed.
  When the input already has a public key, that key stays as it is and
  \<^verbatim>\<open>Crypto.getPublicKeyFromPrivateKey\<close> is not called.
\<close>

theorem sign_attaches_key_and_signature:
  assumes "sign c stdTx b = (evs, Inr tx')"
  shows "(\<exists>pk sg. tx' = stdTx\<lparr>tx_pubKey := Some pk, tx_signature := Some sg\<rparr>) \<and>
         (hasPubKey stdTx \<longrightarrow>
            tx_pubKey tx' = tx_pubKey stdTx \<and> (\<forall>k t. GetPublicKey k t \<notin> set evs))"
proof -
  from assms have g: "\<not> is_empty (tx_from b)" "\<not> is_empty (password b)"
    by (auto simp: sign_def throw_def split: if_splits)
  from assms g obtain decrypt where d: "keyDAO_decrypt c = Some decrypt"
    by (cases "keyDAO_decrypt c") (auto simp: sign_def throw_def)
  from assms g d obtain keyObj where k: "keyDAO_read c (tx_from b) = Some keyObj"
    by (cases "keyDAO_read c (tx_from b)") (auto simp: sign_def throw_def bind_call_Inr)
  obtain evs0 r0 where n: "sign_nonce c keyObj b = (evs0, r0)"
    by (cases "sign_nonce c keyObj b")
  have e0: "\<forall>k t. GetPublicKey k t \<notin> set evs0"
    using sign_nonce_events [of c keyObj b] n by (auto split: if_splits)
  from assms sign_found [OF g d k, of stdTx] n obtain nn evs1 where
    r0: "r0 = Inr nn" and a: "sign_attach c decrypt keyObj stdTx b nn = (evs1, Inr tx')"
    and evs: "evs = KeyRead (tx_from b) # evs0 @ evs1"
    by (cases r0; cases "sign_attach c decrypt keyObj stdTx b (projr r0)")
      (auto simp: bind_simps)
  from sign_attach_result [OF a] e0 evs show ?thesis by auto
qed

text \<open>The fixture's transaction with a public key already attached.\<close>

theorem sign_attaches_key_and_signature_witness:
  "sign test_client (test_tx\<lparr>tx_pubKey := Some (''old'', Some ''4'')\<rparr>)
       (test_baseTx\<lparr>account_number := Some ''5'', sequence := Some ''2''\<rparr>) =
     ([KeyRead ''alice'', KeyDecrypt ''enc'' ''pw'',
       GenerateSignature [1, 2, 3] (Some ''priv'') None],
      Inr (test_tx\<lparr>tx_pubKey := Some (''old'', Some ''4''), tx_signature := Some ''sig''\<rparr>)) \<and>
   hasPubKey (test_tx\<lparr>tx_pubKey := Some (''old'', Some ''4'')\<rparr>) \<and>
   (\<exists>pk sg. test_tx\<lparr>tx_pubKey := Some (''old'', Some ''4''), tx_signature := Some ''sig''\<rparr> =
      test_tx\<lparr>tx_pubKey := Some (''old'', Some ''4'')\<rparr>
        \<lparr>tx_pubKey := Some pk, tx_signature := Some sg\<rparr>) \<and>
   tx_pubKey (test_tx\<lparr>tx_pubKey := Some (''old'', Some ''4''), tx_signature := Some ''sig''\<rparr>) =
     tx_pubKey (test_tx\<lparr>tx_pubKey := Some (''old'', Some ''4'')\<rparr>)"
proof -
  let ?tx = "test_tx\<lparr>tx_pubKey := Some (''old'', Some ''4'')\<rparr>"
  let ?b = "test_baseTx\<lparr>account_number := Some ''5'', sequence := Some ''2''\<rparr>"
  let ?evs = "[KeyRead ''alice'', KeyDecrypt ''enc'' ''pw'',
       GenerateSignature [1, 2, 3] (Some ''priv'') None]"
  let ?tx' = "test_tx\<lparr>tx_pubKey := Some (''old'', Some ''4''), tx_signature := Some ''sig''\<rparr>"
  have run: "sign test_client ?tx ?b = (?evs, Inr ?tx')"
    by (simp add: sign_def sign_nonce_def sign_attach_def bind_simps ret_def throw_def
        js_defs hasPubKey_def addSignature_def fixture_defs)
  have h: "hasPubKey ?tx"
    by (simp add: hasPubKey_def)
  from sign_attaches_key_and_signature [OF run] h run show ?thesis
    by blast
qed

lemma createMsg_error:
  "createMsg TxType m = Inl e \<Longrightarrow> e = SdkError ''not exist tx type'' InvalidType"
  by (simp add: createMsg_def split: if_splits)

lemma createMsgs_error:
  "createMsgs TxType ms = Inl e \<Longrightarrow> e = SdkError ''not exist tx type'' InvalidType"
  by (induction ms arbitrary: e) (auto split: sum.splits dest: createMsg_error)

text \<open>
  C1. \<^verbatim>\<open>sign_signDoc\<close> validates the name and the password, looks the key up and
  decrypts it, but does not test the decrypted key: when decryption gives an empty or
  null result, it calls \<^verbatim>\<open>Crypto.generateSignature\<close> with that result and returns
  whatever the call gives, where \<^verbatim>\<open>sign\<close> fails with the error of code
  \<^verbatim>\<open>InvalidPassword\<close>.
\<close>

theorem sign_signDoc_skips_password_check:
  assumes "\<not> is_empty name" and "\<not> is_empty password'"
    and "keyDAO_decrypt c = Some decrypt" and "keyDAO_read c name = Some keyObj"
    and "\<not> str_truthy (decrypt (privateKey keyObj) password')"
  shows "sign_signDoc c signDoc name password' type' =
    ([KeyRead name, KeyDecrypt (privateKey keyObj) password',
      GenerateSignature signDoc (decrypt (privateKey keyObj) password')
        (Some (case type' of None \<Rightarrow> secp256k1 | Some t \<Rightarrow> t))],
     generateSignature c signDoc (decrypt (privateKey keyObj) password')
       (Some (case type' of None \<Rightarrow> secp256k1 | Some t \<Rightarrow> t)))"
  using assms by (simp add: sign_signDoc_def Let_def bind_simps call_def)

theorem sign_signDoc_skips_password_check_witness:
  "sign_signDoc test_client [1, 2, 3] ''alice'' ''bad'' None =
    ([KeyRead ''alice'', KeyDecrypt ''enc'' ''bad'',
      GenerateSignature [1, 2, 3] None (Some secp256k1)],
     Inr ''sig'')"
proof -
  have d: "keyDAO_decrypt test_client =
      Some (\<lambda>k p. if k = ''enc'' \<and> p = ''pw'' then Some ''priv'' else None)"
    by (simp add: test_client_def)
  have k: "keyDAO_read test_client ''alice'' = Some alice_key"
    by (simp add: test_client_def)
  have f: "\<not> str_truthy ((\<lambda>k p. if k = ''enc'' \<and> p = ''pw'' then Some ''priv'' else None)
      (privateKey alice_key) ''bad'')"
    by (simp add: str_truthy_def)
  have n: "\<not> is_empty ''alice''" "\<not> is_empty ''bad''"
    by (simp_all add: is_empty_def)
  from sign_signDoc_skips_password_check [OF n d k f, of "[1, 2, 3]" None]
  show ?thesis
    by (simp add: fixture_defs)
qed

text \<open>
  C2, as the code has it. \<^verbatim>\<open>sign\<close> raises the validation error, the configuration
  error and the not-found error with no network call made. It decrypts the key after
  the account query of lines 136-140: the error of code \<^verbatim>\<open>InvalidPassword\<close> comes with
  no network call only when \<^verbatim>\<open>baseTx.account_number\<close> and \<^verbatim>\<open>baseTx.sequence\<close> are both
  non-empty, and otherwise after the two queries of the account resolver. The error of
  an unknown message kind is raised by \<^verbatim>\<open>createMsg\<close> while \<^verbatim>\<open>buildAndSend\<close> builds the
  transaction, before \<^verbatim>\<open>sign\<close> and \<^verbatim>\<open>broadcast\<close> run.
\<close>

theorem sign_errors_and_network:
  "(is_empty (tx_from b) \<or> is_empty (password b) \<or> keyDAO_decrypt c = None
      \<or> keyDAO_read c (tx_from b) = None \<longrightarrow>
      (\<exists>e. snd (sign c stdTx b) = Inl e \<and> error_code e \<in> {NoCode, Panic, KeyNotFound}) \<and>
      filter is_network (fst (sign c stdTx b)) = []) \<and>
   (\<not> is_empty (tx_from b) \<and> \<not> is_empty (password b) \<and> keyDAO_decrypt c = Some decrypt
      \<and> keyDAO_read c (tx_from b) = Some keyObj
      \<and> \<not> str_truthy (decrypt (privateKey keyObj) (password b))
      \<and> str_truthy (account_number b) \<and> str_truthy (sequence b) \<longrightarrow>
      sign c stdTx b =
        ([KeyRead (tx_from b), KeyDecrypt (privateKey keyObj) (password b)],
         Inl (SdkError ''decrypto the private key error'' InvalidPassword))) \<and>
   (\<not> is_empty (tx_from b) \<and> \<not> is_empty (password b) \<and> keyDAO_decrypt c = Some decrypt
      \<and> keyDAO_read c (tx_from b) = Some keyObj
      \<and> \<not> str_truthy (decrypt (privateKey keyObj) (password b))
      \<and> (\<not> str_truthy (account_number b) \<or> \<not> str_truthy (sequence b))
      \<and> snd (queryAccount c (address keyObj)) = Inr account \<longrightarrow>
      sign c stdTx b =
        ([KeyRead (tx_from b),
          AbciQuery ''custom/auth/account'' (address keyObj),
          AbciQuery ''custom/bank/all_balances'' (address keyObj),
          KeyDecrypt (privateKey keyObj) (password b)],
         Inl (SdkError ''decrypto the private key error'' InvalidPassword))) \<and>
   (createMsgs TxType msgs = Inl e' \<longrightarrow>
      e' = SdkError ''not exist tx type'' InvalidType \<and>
      buildAndSend c TxType newStdTx msgs b = ([], Inl e'))"
proof (intro conjI impI)
  assume a: "is_empty (tx_from b) \<or> is_empty (password b) \<or> keyDAO_decrypt c = None
      \<or> keyDAO_read c (tx_from b) = None"
  then show "\<exists>e. snd (sign c stdTx b) = Inl e \<and> error_code e \<in> {NoCode, Panic, KeyNotFound}"
    by (auto simp: sign_def throw_def bind_simps split: option.splits)
  from a show "filter is_network (fst (sign c stdTx b)) = []"
    by (auto simp: sign_def throw_def bind_simps split: option.splits)
next
  assume a: "\<not> is_empty (tx_from b) \<and> \<not> is_empty (password b) \<and> keyDAO_decrypt c = Some decrypt
      \<and> keyDAO_read c (tx_from b) = Some keyObj
      \<and> \<not> str_truthy (decrypt (privateKey keyObj) (password b))
      \<and> str_truthy (account_number b) \<and> str_truthy (sequence b)"
  then have "sign_nonce c keyObj b = ([], Inr (the (account_number b), the (sequence b)))"
    by (simp add: sign_nonce_present)
  with a show "sign c stdTx b =
        ([KeyRead (tx_from b), KeyDecrypt (privateKey keyObj) (password b)],
         Inl (SdkError ''decrypto the private key error'' InvalidPassword))"
    by (simp add: sign_found [of b c decrypt keyObj] bind_simps sign_attach_bad_password)
next
  assume a: "\<not> is_empty (tx_from b) \<and> \<not> is_empty (password b) \<and> keyDAO_decrypt c = Some decrypt
      \<and> keyDAO_read c (tx_from b) = Some keyObj
      \<and> \<not> str_truthy (decrypt (privateKey keyObj) (password b))
      \<and> (\<not> str_truthy (account_number b) \<or> \<not> str_truthy (sequence b))
      \<and> snd (queryAccount c (address keyObj)) = Inr account"
  then obtain n where n: "snd (sign_nonce c keyObj b) = Inr n"
    using sign_nonce_resolved [of b c keyObj account] by blast
  from a have ev: "fst (sign_nonce c keyObj b) =
      [AbciQuery ''custom/auth/account'' (address keyObj),
       AbciQuery ''custom/bank/all_balances'' (address keyObj)]"
    by (simp add: sign_nonce_events)
  from a n ev show "sign c stdTx b =
        ([KeyRead (tx_from b),
          AbciQuery ''custom/auth/account'' (address keyObj),
          AbciQuery ''custom/bank/all_balances'' (address keyObj),
          KeyDecrypt (privateKey keyObj) (password b)],
         Inl (SdkError ''decrypto the private key error'' InvalidPassword))"
    by (simp add: sign_found [of b c decrypt keyObj] fst_bind snd_bind
        sign_attach_bad_password)
next
  assume a: "createMsgs TxType msgs = Inl e'"
  then show "e' = SdkError ''not exist tx type'' InvalidType"
    by (rule createMsgs_error)
  from a show "buildAndSend c TxType newStdTx msgs b = ([], Inl e')"
    by (simp add: buildAndSend_def buildTx_def throw_def)
qed

text \<open>
  The claim C2 as stated fails: with no account number in \<^verbatim>\<open>baseTx\<close> and a wrong
  password, \<^verbatim>\<open>sign\<close> has issued both queries of the account resolver before it raises
  the error of code \<^verbatim>\<open>InvalidPassword\<close>.
\<close>

theorem sign_bad_password_after_query:
  "sign test_client test_tx (test_baseTx\<lparr>password := ''bad''\<rparr>) =
     ([KeyRead ''alice'',
       AbciQuery ''custom/auth/account'' ''addr1'',
       AbciQuery ''custom/bank/all_balances'' ''addr1'',
       KeyDecrypt ''enc'' ''bad''],
      Inl (SdkError ''decrypto the private key error'' InvalidPassword)) \<and>
   filter is_network (fst (sign test_client test_tx (test_baseTx\<lparr>password := ''bad''\<rparr>))) =
     [AbciQuery ''custom/auth/account'' ''addr1'',
      AbciQuery ''custom/bank/all_balances'' ''addr1'']"
  by (simp add: sign_def sign_nonce_def sign_attach_def queryAccount_def bind_simps ret_def
      throw_def js_defs fixture_defs)

theorem sign_errors_and_network_witness:
  "((\<exists>e. snd (sign test_client test_tx (test_baseTx\<lparr>tx_from := ''bob''\<rparr>)) = Inl e
        \<and> error_code e \<in> {NoCode, Panic, KeyNotFound}) \<and>
    filter is_network (fst (sign test_client test_tx (test_baseTx\<lparr>tx_from := ''bob''\<rparr>))) = []) \<and>
   sign test_client test_tx
       (test_baseTx\<lparr>password := ''bad'', account_number := Some ''5'', sequence := Some ''2''\<rparr>) =
     ([KeyRead ''alice'', KeyDecrypt ''enc'' ''bad''],
      Inl (SdkError ''decrypto the private key error'' InvalidPassword)) \<and>
   sign test_client test_tx (test_baseTx\<lparr>password := ''bad''\<rparr>) =
     ([KeyRead ''alice'',
       AbciQuery ''custom/auth/account'' ''addr1'',
       AbciQuery ''custom/bank/all_balances'' ''addr1'',
       KeyDecrypt ''enc'' ''bad''],
      Inl (SdkError ''decrypto the private key error'' InvalidPassword)) \<and>
   buildAndSend test_client TxType_names (\<lambda>ms b. test_tx)
       [\<lparr>msg_type = ''MsgUnknown'', msg_value = ''x''\<rparr>] test_baseTx =
     ([], Inl (SdkError ''not exist tx type'' InvalidType))"
proof -
  let ?d = "\<lambda>k p. if k = ''enc'' \<and> p = ''pw'' then Some ''priv'' else None"
  let ?acc = "\<lparr> acc_accountNumber = js_number_9, acc_sequence = js_number_0,
                coins = [\<lparr> denom = ''stake'', amount = ''10'' \<rparr>] \<rparr>"
  let ?b1 = "test_baseTx\<lparr>tx_from := ''bob''\<rparr>"
  let ?b2 = "test_baseTx\<lparr>password := ''bad'', account_number := Some ''5'',
               sequence := Some ''2''\<rparr>"
  let ?b3 = "test_baseTx\<lparr>password := ''bad''\<rparr>"
  let ?msgs = "[\<lparr>msg_type = ''MsgUnknown'', msg_value = ''x''\<rparr>]"
  let ?e = "SdkError ''not exist tx type'' InvalidType"
  have h1: "is_empty (tx_from ?b1) \<or> is_empty (password ?b1) \<or> keyDAO_decrypt test_client = None
      \<or> keyDAO_read test_client (tx_from ?b1) = None"
    by (simp add: fixture_defs)
  have h2: "\<not> is_empty (tx_from ?b2) \<and> \<not> is_empty (password ?b2)
      \<and> keyDAO_decrypt test_client = Some ?d
      \<and> keyDAO_read test_client (tx_from ?b2) = Some alice_key
      \<and> \<not> str_truthy (?d (privateKey alice_key) (password ?b2))
      \<and> str_truthy (account_number ?b2) \<and> str_truthy (sequence ?b2)"
    by (simp add: fixture_defs js_defs)
  have h3: "\<not> is_empty (tx_from ?b3) \<and> \<not> is_empty (password ?b3)
      \<and> keyDAO_decrypt test_client = Some ?d
      \<and> keyDAO_read test_client (tx_from ?b3) = Some alice_key
      \<and> \<not> str_truthy (?d (privateKey alice_key) (password ?b3))
      \<and> (\<not> str_truthy (account_number ?b3) \<or> \<not> str_truthy (sequence ?b3))
      \<and> snd (queryAccount test_client (address alice_key)) = Inr ?acc"
    by (simp add: fixture_defs js_defs queryAccount_def bind_simps ret_def)
  have h4: "createMsgs TxType_names ?msgs = Inl ?e"
    by (simp add: createMsg_def)
  have c1: "(\<exists>e. snd (sign test_client test_tx ?b1) = Inl e
        \<and> error_code e \<in> {NoCode, Panic, KeyNotFound}) \<and>
      filter is_network (fst (sign test_client test_tx ?b1)) = []"
    using sign_errors_and_network [where b = ?b1 and c = test_client and stdTx = test_tx,
        THEN conjunct1, THEN mp, OF h1] .
  have c2: "sign test_client test_tx ?b2 =
      ([KeyRead (tx_from ?b2), KeyDecrypt (privateKey alice_key) (password ?b2)],
       Inl (SdkError ''decrypto the private key error'' InvalidPassword))"
    using sign_errors_and_network [where b = ?b2 and c = test_client and stdTx = test_tx,
        THEN conjunct2, THEN conjunct1, THEN mp, OF h2] .
  have c3: "sign test_client test_tx ?b3 =
      ([KeyRead (tx_from ?b3),
        AbciQuery ''custom/auth/account'' (address alice_key),
        AbciQuery ''custom/bank/all_balances'' (address alice_key),
        KeyDecrypt (privateKey alice_key) (password ?b3)],
       Inl (SdkError ''decrypto the private key error'' InvalidPassword))"
    using sign_errors_and_network [where b = ?b3 and c = test_client and stdTx = test_tx,
        THEN conjunct2, THEN conjunct2, THEN conjunct1, THEN mp, OF h3] .
  have c4: "?e = SdkError ''not exist tx type'' InvalidType \<and>
      buildAndSend test_client TxType_names (\<lambda>ms b. test_tx) ?msgs test_baseTx = ([], Inl ?e)"
    using sign_errors_and_network [where TxType = TxType_names and msgs = ?msgs
        and c = test_client and b = test_baseTx,
        THEN conjunct2, THEN conjunct2, THEN conjunct2, THEN mp, OF h4] .
  have f2: "tx_from ?b2 = ''alice''" "password ?b2 = ''bad''" "tx_from ?b3 = ''alice''"
    "password ?b3 = ''bad''" "privateKey alice_key = ''enc''" "address alice_key = ''addr1''"
    by (simp_all add: fixture_defs)
  from c1 c2 c3 c4 show ?thesis
    unfolding f2 by blast
qed

text \<open>
  C4. What lines 133-140 of \<^verbatim>\<open>sign\<close> do once the credentials are validated and the key
  record is found. \<^verbatim>\<open>sign\<close> continues with the pair these lines compute; its network
  calls are the two queries of the account resolver when \<^verbatim>\<open>baseTx.account_number\<close> or
  \<^verbatim>\<open>baseTx.sequence\<close> is falsy, and none when both are truthy, in which case both are
  used as they are. When the resolver is called and answers, a resolved value replaces
  the value of \<^verbatim>\<open>baseTx\<close> only if it is truthy: a resolved account number or sequence
  that is falsy, as the number 0 is, leaves \<^verbatim>\<open>baseTx.account_number ?? '0'\<close> or
  \<^verbatim>\<open>baseTx.sequence || '0'\<close> in place, where the claim has both values filled from the
  resolved account.
\<close>

theorem sign_resolver:
  assumes "\<not> is_empty (tx_from b)" and "\<not> is_empty (password b)"
    and "keyDAO_decrypt c = Some decrypt" and "keyDAO_read c (tx_from b) = Some keyObj"
  shows "sign c stdTx b =
      (KeyRead (tx_from b) #
         fst (bind (sign_nonce c keyObj b) (sign_attach c decrypt keyObj stdTx b)),
       snd (bind (sign_nonce c keyObj b) (sign_attach c decrypt keyObj stdTx b))) \<and>
    filter is_network (fst (sign c stdTx b)) =
      (if str_truthy (account_number b) \<and> str_truthy (sequence b) then []
       else [AbciQuery ''custom/auth/account'' (address keyObj),
             AbciQuery ''custom/bank/all_balances'' (address keyObj)]) \<and>
    (str_truthy (account_number b) \<and> str_truthy (sequence b) \<longrightarrow>
       (\<exists>a s. account_number b = Some a \<and> sequence b = Some s \<and>
          sign_nonce c keyObj b = ([], Inr (a, s)))) \<and>
    ((\<not> str_truthy (account_number b) \<or> \<not> str_truthy (sequence b)) \<and>
       snd (queryAccount c (address keyObj)) = Inr account \<longrightarrow>
       snd (sign_nonce c keyObj b) =
         Inr (if js_truthy (acc_accountNumber account)
                then or_str (Some (js_String (acc_accountNumber account))) ''0''
              else nullish (account_number b) ''0'',
              if js_truthy (acc_sequence account)
                then or_str (Some (js_String (acc_sequence account))) ''0''
              else or_str (sequence b) ''0''))"
proof (intro conjI impI)
  show f: "sign c stdTx b =
      (KeyRead (tx_from b) #
         fst (bind (sign_nonce c keyObj b) (sign_attach c decrypt keyObj stdTx b)),
       snd (bind (sign_nonce c keyObj b) (sign_attach c decrypt keyObj stdTx b)))"
    by (rule sign_found [OF assms])
  show "filter is_network (fst (sign c stdTx b)) =
      (if str_truthy (account_number b) \<and> str_truthy (sequence b) then []
       else [AbciQuery ''custom/auth/account'' (address keyObj),
             AbciQuery ''custom/bank/all_balances'' (address keyObj)])"
    by (simp add: f fst_bind sign_nonce_events sign_attach_no_network split: sum.splits)
next
  assume "str_truthy (account_number b) \<and> str_truthy (sequence b)"
  then show "\<exists>a s. account_number b = Some a \<and> sequence b = Some s \<and>
      sign_nonce c keyObj b = ([], Inr (a, s))"
    using sign_nonce_present [of b c keyObj]
    by (auto simp: str_truthy_def split: option.splits)
next
  assume "(\<not> str_truthy (account_number b) \<or> \<not> str_truthy (sequence b)) \<and>
       snd (queryAccount c (address keyObj)) = Inr account"
  then show "snd (sign_nonce c keyObj b) =
         Inr (if js_truthy (acc_accountNumber account)
                then or_str (Some (js_String (acc_accountNumber account))) ''0''
              else nullish (account_number b) ''0'',
              if js_truthy (acc_sequence account)
                then or_str (Some (js_String (acc_sequence account))) ''0''
              else or_str (sequence b) ''0'')"
    using sign_nonce_resolved [of b c keyObj account] by blast
qed

text \<open>
  The failing run: the sequence is given as 7 and the account number is absent, the
  resolver is called and resolves the account number 9 and the sequence 0, and \<^verbatim>\<open>sign\<close>
  continues with the sequence 7 of \<^verbatim>\<open>baseTx\<close>, which it attaches with the public key.
\<close>

theorem sign_resolver_witness:
  "snd (queryAccount test_client ''addr1'') =
     Inr \<lparr> acc_accountNumber = js_number_9, acc_sequence = js_number_0,
           coins = [\<lparr> denom = ''stake'', amount = ''10'' \<rparr>] \<rparr> \<and>
   filter is_network (fst (sign test_client test_tx (test_baseTx\<lparr>sequence := Some ''7''\<rparr>))) =
     [AbciQuery ''custom/auth/account'' ''addr1'',
      AbciQuery ''custom/bank/all_balances'' ''addr1''] \<and>
   snd (sign_nonce test_client alice_key (test_baseTx\<lparr>sequence := Some ''7''\<rparr>)) =
     Inr (''9'', ''7'') \<and>
   sign test_client test_tx (test_baseTx\<lparr>sequence := Some ''7''\<rparr>) =
     ([KeyRead ''alice'',
       AbciQuery ''custom/auth/account'' ''addr1'',
       AbciQuery ''custom/bank/all_balances'' ''addr1'',
       KeyDecrypt ''enc'' ''pw'',
       GetPublicKey (Some ''priv'') None,
       GenerateSignature [1, 2, 3] (Some ''priv'') None],
      Inr (test_tx\<lparr>tx_pubKey := Some (''pub'', Some ''7''), tx_signature := Some ''sig''\<rparr>)) \<and>
   filter is_network (fst (sign test_client test_tx
     (test_baseTx\<lparr>account_number := Some ''5'', sequence := Some ''2''\<rparr>))) = [] \<and>
   sign_nonce test_client alice_key
     (test_baseTx\<lparr>account_number := Some ''5'', sequence := Some ''2''\<rparr>) =
     ([], Inr (''5'', ''2''))"
proof -
  let ?d = "\<lambda>k p. if k = ''enc'' \<and> p = ''pw'' then Some ''priv'' else None"
  let ?acc = "\<lparr> acc_accountNumber = js_number_9, acc_sequence = js_number_0,
                coins = [\<lparr> denom = ''stake'', amount = ''10'' \<rparr>] \<rparr>"
  let ?b1 = "test_baseTx\<lparr>sequence := Some ''7''\<rparr>"
  let ?b2 = "test_baseTx\<lparr>account_number := Some ''5'', sequence := Some ''2''\<rparr>"
  have g1: "\<not> is_empty (tx_from ?b1)" "\<not> is_empty (password ?b1)"
    and g2: "\<not> is_empty (tx_from ?b2)" "\<not> is_empty (password ?b2)"
    and d: "keyDAO_decrypt test_client = Some ?d"
    and k1: "keyDAO_read test_client (tx_from ?b1) = Some alice_key"
    and k2: "keyDAO_read test_client (tx_from ?b2) = Some alice_key"
    by (simp_all add: fixture_defs is_empty_def)
  note t1 = sign_resolver [OF g1 d k1, of test_tx ?acc]
  note t2 = sign_resolver [OF g2 d k2, of test_tx ?acc]
  have a0: "snd (queryAccount test_client ''addr1'') = Inr ?acc"
    by (simp add: test_client_def queryAccount_def bind_simps ret_def)
  have q: "(\<not> str_truthy (account_number ?b1) \<or> \<not> str_truthy (sequence ?b1)) \<and>
      snd (queryAccount test_client (address alice_key)) = Inr ?acc"
    using a0 by (simp add: test_baseTx_def alice_key_def js_defs)
  have p: "str_truthy (account_number ?b2) \<and> str_truthy (sequence ?b2)"
    by (simp add: fixture_defs js_defs)
  from t1 [THEN conjunct2, THEN conjunct1]
  have a1: "filter is_network (fst (sign test_client test_tx ?b1)) =
     [AbciQuery ''custom/auth/account'' ''addr1'',
      AbciQuery ''custom/bank/all_balances'' ''addr1'']"
    by (simp add: fixture_defs js_defs)
  from t1 [THEN conjunct2, THEN conjunct2, THEN conjunct2, THEN mp, OF q]
  have a2: "snd (sign_nonce test_client alice_key ?b1) = Inr (''9'', ''7'')"
    by (simp add: fixture_defs js_defs)
  have a5: "sign test_client test_tx ?b1 =
     ([KeyRead ''alice'',
       AbciQuery ''custom/auth/account'' ''addr1'',
       AbciQuery ''custom/bank/all_balances'' ''addr1'',
       KeyDecrypt ''enc'' ''pw'',
       GetPublicKey (Some ''priv'') None,
       GenerateSignature [1, 2, 3] (Some ''priv'') None],
      Inr (test_tx\<lparr>tx_pubKey := Some (''pub'', Some ''7''), tx_signature := Some ''sig''\<rparr>))"
    by (simp add: sign_def sign_nonce_def sign_attach_def queryAccount_def bind_simps ret_def
        throw_def call_def js_defs hasPubKey_def setPubKey_def addSignature_def fixture_defs)
  from t2 [THEN conjunct2, THEN conjunct1]
  have a3: "filter is_network (fst (sign test_client test_tx ?b2)) = []"
    by (simp add: fixture_defs js_defs)
  from t2 [THEN conjunct2, THEN conjunct2, THEN conjunct1, THEN mp, OF p]
  have a4: "sign_nonce test_client alice_key ?b2 = ([], Inr (''5'', ''2''))"
    by (simp add: fixture_defs)
  from a0 a1 a2 a3 a4 a5 show ?thesis by blast
qed

section \<open>Claims about message creation\<close>

lemma createMsg_unknown:
  "(createMsg TxType m = Inl (SdkError ''not exist tx type'' InvalidType)) =
   (msg_type m \<notin> range TxType)"
proof
  assume "createMsg TxType m = Inl (SdkError ''not exist tx type'' InvalidType)"
  then have n: "msg_type m \<noteq> TxType k" for k
    by (cases k) (simp_all add: createMsg_def split: if_splits)
  then show "msg_type m \<notin> range TxType"
    by auto
next
  assume "msg_type m \<notin> range TxType"
  then have "msg_type m \<noteq> TxType k" for k
    by auto
  then show "createMsg TxType m = Inl (SdkError ''not exist tx type'' InvalidType)"
    by (simp add: createMsg_def)
qed

lemma inj_TxType_names: "inj TxType_names"
proof (rule injI)
  fix x y
  assume "TxType_names x = TxType_names y"
  then show "x = y"
    by (cases x; cases y; simp)
qed

text \<open>
  C3. For a tag of one of the three coinswap kinds \<^verbatim>\<open>createMsg\<close> neither fails nor
  builds a message of that kind: the \<^verbatim>\<open>case\<close> label has an empty body, and the function
  returns the empty object \<^verbatim>\<open>{}\<close> with the supplied value dropped.
\<close>

theorem createMsg_coinswap_empty:
  assumes "inj TxType"
    and "k = T_MsgAddLiquidity \<or> k = T_MsgRemoveLiquidity \<or> k = T_MsgSwapOrder"
  shows "createMsg TxType \<lparr>msg_type = TxType k, msg_value = v\<rparr> = Inr EmptyObject"
  using assms by (auto simp: createMsg_def inj_eq)

theorem createMsg_coinswap_empty_witness:
  "createMsg TxType_names \<lparr>msg_type = ''MsgAddLiquidity'', msg_value = ''10stake''\<rparr> =
     Inr EmptyObject"
proof -
  have k: "T_MsgAddLiquidity = T_MsgAddLiquidity \<or> T_MsgAddLiquidity = T_MsgRemoveLiquidity
      \<or> T_MsgAddLiquidity = T_MsgSwapOrder"
    by simp
  from createMsg_coinswap_empty [OF inj_TxType_names k, of "''10stake''"]
  show ?thesis by simp
qed

section \<open>Claims about broadcasting\<close>

lemma broadcastTx_run:
  assumes "method = BroadcastTxSync \<or> method = BroadcastTxAsync"
    and "request_tx c method (bytesToBase64 c txBytes) = Inr response"
  shows "broadcastTx c txBytes method =
    ([RpcRequest method (bytesToBase64 c txBytes)],
     case async_code response of
       None \<Rightarrow> Inr response
     | Some k \<Rightarrow>
         if k \<noteq> 0 then Inl (SdkError (async_log response) (ChainCode k)) else Inr response)"
  using assms
  by (auto simp: broadcastTx_def bind_simps call_def ret_def throw_def split: option.splits)

lemma broadcastTx_events:
  "method = BroadcastTxSync \<or> method = BroadcastTxAsync \<Longrightarrow>
   fst (broadcastTx c txBytes method) = [RpcRequest method (bytesToBase64 c txBytes)]"
  by (auto simp: broadcastTx_def fst_bind call_def ret_def throw_def
      split: sum.splits option.splits)

lemma broadcastTxCommit_phases:
  assumes "request_commit c (bytesToBase64 c txBytes) = Inr response"
  shows "(check_tx response = Some ct \<and> code ct \<noteq> 0 \<longrightarrow>
      broadcastTxCommit c txBytes =
        ([RpcRequest BroadcastTxCommit (bytesToBase64 c txBytes), ConsoleError ct],
         Inl (SdkError (log ct) (ChainCode (code ct))))) \<and>
    ((check_tx response = None \<or> (\<exists>ct. check_tx response = Some ct \<and> code ct = 0)) \<and>
      deliver_tx response = Some dt \<and> code dt \<noteq> 0 \<longrightarrow>
      broadcastTxCommit c txBytes =
        ([RpcRequest BroadcastTxCommit (bytesToBase64 c txBytes), ConsoleError dt],
         Inl (SdkError (log dt) (ChainCode (code dt)))))"
  using assms
  by (auto simp: broadcastTxCommit_def bind_simps call_def ret_def throw_def)

lemma broadcast_Commit: "broadcast c signedTx (Some Commit) = broadcastTxCommit c (getData c signedTx)"
  by (simp add: broadcast_def)

text \<open>
  C8. Under the mode Commit \<^verbatim>\<open>broadcast\<close> is \<^verbatim>\<open>broadcastTxCommit\<close> on the bytes of the
  transaction: one request, after which the check phase is tested first and the
  delivery phase second. A check phase with a non-zero code fails the call with the
  check phase's log and code, whatever the delivery phase holds; with a check phase
  that is absent or has the code 0, a delivery phase with a non-zero code fails the
  call with the delivery phase's log and code. Either way the outcome is the error
  alone: no hash, height, gas or tags.
\<close>

theorem broadcast_commit_phases:
  assumes "request_commit c (bytesToBase64 c (getData c signedTx)) = Inr response"
  shows "broadcast c signedTx (Some Commit) = broadcastTxCommit c (getData c signedTx) \<and>
    (check_tx response = Some ct \<and> code ct \<noteq> 0 \<longrightarrow>
      broadcast c signedTx (Some Commit) =
        ([RpcRequest BroadcastTxCommit (bytesToBase64 c (getData c signedTx)), ConsoleError ct],
         Inl (SdkError (log ct) (ChainCode (code ct))))) \<and>
    ((check_tx response = None \<or> (\<exists>ct. check_tx response = Some ct \<and> code ct = 0)) \<and>
      deliver_tx response = Some dt \<and> code dt \<noteq> 0 \<longrightarrow>
      broadcast c signedTx (Some Commit) =
        ([RpcRequest BroadcastTxCommit (bytesToBase64 c (getData c signedTx)), ConsoleError dt],
         Inl (SdkError (log dt) (ChainCode (code dt)))))"
  using broadcastTxCommit_phases [OF assms, of ct dt]
  by (simp add: broadcast_Commit)

theorem broadcast_commit_phases_witness:
  "broadcast
     (test_client\<lparr>request_commit := \<lambda>t. Inr \<lparr> hash = ''AB12'', height = Some 7,
        check_tx = Some (failed_tx 5 ''bad nonce''),
        deliver_tx = Some (failed_tx 11 ''out of gas'') \<rparr>\<rparr>) test_tx (Some Commit) =
     ([RpcRequest BroadcastTxCommit ''BAU='', ConsoleError (failed_tx 5 ''bad nonce'')],
      Inl (SdkError ''bad nonce'' (ChainCode 5))) \<and>
   broadcast
     (test_client\<lparr>request_commit := \<lambda>t. Inr \<lparr> hash = ''AB12'', height = Some 7,
        check_tx = Some ok_tx,
        deliver_tx = Some (failed_tx 11 ''out of gas'') \<rparr>\<rparr>) test_tx (Some Commit) =
     ([RpcRequest BroadcastTxCommit ''BAU='', ConsoleError (failed_tx 11 ''out of gas'')],
      Inl (SdkError ''out of gas'' (ChainCode 11)))"
proof -
  let ?r1 = "\<lparr> hash = ''AB12'', height = Some 7,
        check_tx = Some (failed_tx 5 ''bad nonce''),
        deliver_tx = Some (failed_tx 11 ''out of gas'') \<rparr>"
  let ?r2 = "\<lparr> hash = ''AB12'', height = Some 7, check_tx = Some ok_tx,
        deliver_tx = Some (failed_tx 11 ''out of gas'') \<rparr>"
  let ?c1 = "test_client\<lparr>request_commit := \<lambda>t. Inr ?r1\<rparr>"
  let ?c2 = "test_client\<lparr>request_commit := \<lambda>t. Inr ?r2\<rparr>"
  have q1: "request_commit ?c1 (bytesToBase64 ?c1 (getData ?c1 test_tx)) = Inr ?r1"
    and q2: "request_commit ?c2 (bytesToBase64 ?c2 (getData ?c2 test_tx)) = Inr ?r2"
    by simp_all
  have h1: "check_tx ?r1 = Some (failed_tx 5 ''bad nonce'') \<and> code (failed_tx 5 ''bad nonce'') \<noteq> 0"
    by (simp add: failed_tx_def)
  have h2: "(check_tx ?r2 = None \<or> (\<exists>ct. check_tx ?r2 = Some ct \<and> code ct = 0)) \<and>
      deliver_tx ?r2 = Some (failed_tx 11 ''out of gas'') \<and> code (failed_tx 11 ''out of gas'') \<noteq> 0"
    by (simp add: failed_tx_def ok_tx_def)
  from broadcast_commit_phases [OF q1, THEN conjunct2, THEN conjunct1, THEN mp, OF h1]
  have a1: "broadcast ?c1 test_tx (Some Commit) =
     ([RpcRequest BroadcastTxCommit ''BAU='', ConsoleError (failed_tx 5 ''bad nonce'')],
      Inl (SdkError ''bad nonce'' (ChainCode 5)))"
    by (simp add: test_client_def failed_tx_def)
  from broadcast_commit_phases [OF q2, THEN conjunct2, THEN conjunct2, THEN mp, OF h2]
  have a2: "broadcast ?c2 test_tx (Some Commit) =
     ([RpcRequest BroadcastTxCommit ''BAU='', ConsoleError (failed_tx 11 ''out of gas'')],
      Inl (SdkError ''out of gas'' (ChainCode 11)))"
    by (simp add: test_client_def failed_tx_def)
  from a1 a2 show ?thesis by blast
qed

text \<open>
  C9. Under the modes Async and Sync \<^verbatim>\<open>broadcast\<close> makes one request, with the method
  of the mode, and its only test is the code of the response to that request: a
  non-zero code fails the call with the response's log and code, and otherwise the
  result carries the response's hash and no height, gas, info or tags.
\<close>

theorem broadcast_async_sync:
  assumes "mode' = Some Async \<or> mode' = Some Sync"
    and "method = (if mode' = Some Sync then BroadcastTxSync else BroadcastTxAsync)"
    and "request_tx c method (bytesToBase64 c (getData c signedTx)) = Inr response"
  shows "broadcast c signedTx mode' =
    ([RpcRequest method (bytesToBase64 c (getData c signedTx))],
     case async_code response of
       None \<Rightarrow>
         Inr \<lparr> res_hash = async_hash response, res_height = None, res_gas_wanted = None,
               res_gas_used = None, res_info = None, res_tags = None \<rparr>
     | Some k \<Rightarrow>
         if k \<noteq> 0 then Inl (SdkError (async_log response) (ChainCode k))
         else Inr \<lparr> res_hash = async_hash response, res_height = None, res_gas_wanted = None,
                    res_gas_used = None, res_info = None, res_tags = None \<rparr>)"
proof -
  have m: "method = BroadcastTxSync \<or> method = BroadcastTxAsync"
    using assms(2) by simp
  note r = broadcastTx_run [OF m assms(3)]
  from assms(1) show ?thesis
  proof
    assume a: "mode' = Some Async"
    with assms(2) have "method = BroadcastTxAsync" by simp
    with a r show ?thesis
      by (simp add: broadcast_def broadcastTxAsync_def bind_simps ret_def newTxResult_def
          split: option.splits)
  next
    assume s: "mode' = Some Sync"
    with assms(2) have "method = BroadcastTxSync" by simp
    with s r show ?thesis
      by (simp add: broadcast_def broadcastTxSync_def bind_simps ret_def newTxResult_def
          split: option.splits)
  qed
qed

theorem broadcast_async_sync_witness:
  "broadcast (test_client\<lparr>request_tx := \<lambda>m t. Inr \<lparr> async_code = Some 4,
       async_log = ''signature verification failed'', async_hash = ''AB12'' \<rparr>\<rparr>)
     test_tx (Some Sync) =
     ([RpcRequest BroadcastTxSync ''BAU=''],
      Inl (SdkError ''signature verification failed'' (ChainCode 4))) \<and>
   broadcast test_client test_tx (Some Async) =
     ([RpcRequest BroadcastTxAsync ''BAU=''],
      Inr \<lparr> res_hash = ''AB12'', res_height = None, res_gas_wanted = None,
            res_gas_used = None, res_info = None, res_tags = None \<rparr>)"
proof -
  let ?r1 = "\<lparr> async_code = Some 4, async_log = ''signature verification failed'',
               async_hash = ''AB12'' \<rparr>"
  let ?r2 = "\<lparr> async_code = None, async_log = [], async_hash = ''AB12'' \<rparr>"
  let ?c1 = "test_client\<lparr>request_tx := \<lambda>m t. Inr ?r1\<rparr>"
  have m1: "Some Sync = Some Async \<or> Some Sync = Some Sync"
    and m2: "Some Async = Some Async \<or> Some Async = Some Sync"
    by simp_all
  have q1: "request_tx ?c1 (if Some Sync = Some Sync then BroadcastTxSync else BroadcastTxAsync)
      (bytesToBase64 ?c1 (getData ?c1 test_tx)) = Inr ?r1"
    by simp
  have q2: "request_tx test_client
      (if Some Async = Some Sync then BroadcastTxSync else BroadcastTxAsync)
      (bytesToBase64 test_client (getData test_client test_tx)) = Inr ?r2"
    by (simp add: test_client_def)
  from broadcast_async_sync [OF m1 refl q1]
  have a1: "broadcast ?c1 test_tx (Some Sync) =
     ([RpcRequest BroadcastTxSync ''BAU=''],
      Inl (SdkError ''signature verification failed'' (ChainCode 4)))"
    by (simp add: test_client_def)
  from broadcast_async_sync [OF m2 refl q2]
  have a2: "broadcast test_client test_tx (Some Async) =
     ([RpcRequest BroadcastTxAsync ''BAU=''],
      Inr \<lparr> res_hash = ''AB12'', res_height = None, res_gas_wanted = None,
            res_gas_used = None, res_info = None, res_tags = None \<rparr>)"
    by (simp add: test_client_def)
  from a1 a2 show ?thesis by blast
qed

text \<open>
  C10. With a mode that is neither Commit nor Sync, an omitted mode included,
  \<^verbatim>\<open>broadcast\<close> takes the \<^verbatim>\<open>default\<close> branch: it submits through \<^verbatim>\<open>broadcastTxAsync\<close>, its
  one request has the method of the mode Async, and it behaves as it does under the
  mode Async.
\<close>

theorem broadcast_default_is_async:
  assumes "mode' \<noteq> Some Commit" and "mode' \<noteq> Some Sync"
  shows "broadcast c signedTx mode' =
      bind (broadcastTxAsync c (getData c signedTx))
        (\<lambda>response. ret (newTxResult (async_hash response) None None)) \<and>
    broadcast c signedTx mode' = broadcast c signedTx (Some Async) \<and>
    fst (broadcast c signedTx mode') =
      [RpcRequest BroadcastTxAsync (bytesToBase64 c (getData c signedTx))]"
proof -
  have d: "broadcast c signedTx mode' =
      bind (broadcastTxAsync c (getData c signedTx))
        (\<lambda>response. ret (newTxResult (async_hash response) None None))"
  proof (cases mode')
    case None
    then show ?thesis by (simp add: broadcast_def)
  next
    case (Some m)
    with assms show ?thesis by (cases m) (simp_all add: broadcast_def)
  qed
  have a: "broadcast c signedTx (Some Async) =
      bind (broadcastTxAsync c (getData c signedTx))
        (\<lambda>response. ret (newTxResult (async_hash response) None None))"
    by (simp add: broadcast_def)
  have e: "fst (bind (broadcastTxAsync c (getData c signedTx))
        (\<lambda>response. ret (newTxResult (async_hash response) None None))) =
      [RpcRequest BroadcastTxAsync (bytesToBase64 c (getData c signedTx))]"
    by (simp add: fst_bind broadcastTxAsync_def broadcastTx_events ret_def split: sum.splits)
  from d a e show ?thesis by simp
qed

theorem broadcast_default_is_async_witness:
  "broadcast test_client test_tx None = broadcast test_client test_tx (Some Async) \<and>
   fst (broadcast test_client test_tx None) = [RpcRequest BroadcastTxAsync ''BAU='']"
proof -
  have n: "(None :: broadcastMode option) \<noteq> Some Commit"
    "(None :: broadcastMode option) \<noteq> Some Sync"
    by simp_all
  have b: "bytesToBase64 test_client (getData test_client test_tx) = ''BAU=''"
    by (simp add: test_client_def)
  from broadcast_default_is_async [OF n, of test_client test_tx, THEN conjunct2]
  show ?thesis
    unfolding b .
qed

end
